theory Spec2Isabelle
  imports Complex_Main
begin

section \<open>JavaScript numbers\<close>

text \<open>
  Every number of \<^verbatim>\<open>src/App.js\<close> is a JavaScript Number. The model keeps the three
  non-finite values apart and takes a finite number to be a real: rounding, overflow of a
  finite result to an infinity, the sign of zero and the single-precision rounding of the
  vertex buffer are not modelled. The arithmetic on the non-finite values is the one of
  IEEE 754: \<open>NaN\<close> absorbs, \<open>Infinity - Infinity\<close> and \<open>Infinity * 0\<close> are \<open>NaN\<close>, and
  \<open>Math.cos\<close> and \<open>Math.sin\<close> of a non-finite argument are \<open>NaN\<close>.
\<close>

datatype jsnum = NaN | PInf | NInf | Num real

fun isFinite :: "jsnum \<Rightarrow> bool" where
  "isFinite (Num r) = True"
| "isFinite v = False"

instantiation jsnum :: "{plus, minus, uminus, times, abs, inverse}"
begin

fun plus_jsnum :: "jsnum \<Rightarrow> jsnum \<Rightarrow> jsnum" where
  "plus_jsnum NaN b = NaN"
| "plus_jsnum a NaN = NaN"
| "plus_jsnum (Num a) (Num b) = Num (a + b)"
| "plus_jsnum PInf NInf = NaN"
| "plus_jsnum NInf PInf = NaN"
| "plus_jsnum PInf b = PInf"
| "plus_jsnum NInf b = NInf"
| "plus_jsnum (Num a) b = b"

fun uminus_jsnum :: "jsnum \<Rightarrow> jsnum" where
  "uminus_jsnum NaN = NaN"
| "uminus_jsnum PInf = NInf"
| "uminus_jsnum NInf = PInf"
| "uminus_jsnum (Num a) = Num (- a)"

definition minus_jsnum :: "jsnum \<Rightarrow> jsnum \<Rightarrow> jsnum" where
  "minus_jsnum a b = a + (- b)"

fun signed_inf :: "bool \<Rightarrow> jsnum" where
  "signed_inf True = PInf"
| "signed_inf False = NInf"

fun times_jsnum :: "jsnum \<Rightarrow> jsnum \<Rightarrow> jsnum" where
  "times_jsnum NaN b = NaN"
| "times_jsnum a NaN = NaN"
| "times_jsnum (Num a) (Num b) = Num (a * b)"
| "times_jsnum (Num a) PInf = (if a = 0 then NaN else signed_inf (0 < a))"
| "times_jsnum (Num a) NInf = (if a = 0 then NaN else signed_inf (a < 0))"
| "times_jsnum PInf (Num b) = (if b = 0 then NaN else signed_inf (0 < b))"
| "times_jsnum NInf (Num b) = (if b = 0 then NaN else signed_inf (b < 0))"
| "times_jsnum PInf PInf = PInf"
| "times_jsnum NInf NInf = PInf"
| "times_jsnum PInf NInf = NInf"
| "times_jsnum NInf PInf = NInf"

fun abs_jsnum :: "jsnum \<Rightarrow> jsnum" where
  "abs_jsnum NaN = NaN"
| "abs_jsnum PInf = PInf"
| "abs_jsnum NInf = PInf"
| "abs_jsnum (Num a) = Num \<bar>a\<bar>"

fun divide_jsnum :: "jsnum \<Rightarrow> jsnum \<Rightarrow> jsnum" where
  "divide_jsnum NaN b = NaN"
| "divide_jsnum a NaN = NaN"
| "divide_jsnum (Num a) (Num b) =
     (if b = 0 then (if a = 0 then NaN else signed_inf (0 < a)) else Num (a / b))"
| "divide_jsnum (Num a) b = Num 0"
| "divide_jsnum PInf (Num b) = signed_inf (0 \<le> b)"
| "divide_jsnum NInf (Num b) = signed_inf (b < 0)"
| "divide_jsnum a b = NaN"

definition inverse_jsnum :: "jsnum \<Rightarrow> jsnum" where
  "inverse_jsnum a = divide (Num 1) a"

instance ..

end

text \<open>\<^verbatim>\<open>Math.cos\<close> and \<^verbatim>\<open>Math.sin\<close>.\<close>

fun Math_cos :: "jsnum \<Rightarrow> jsnum" where
  "Math_cos (Num a) = Num (cos a)"
| "Math_cos v = NaN"

fun Math_sin :: "jsnum \<Rightarrow> jsnum" where
  "Math_sin (Num a) = Num (sin a)"
| "Math_sin v = NaN"

definition Math_PI :: jsnum where
  "Math_PI = Num pi"

section \<open>The petal: one frame of the vertex deformation\<close>

text \<open>
  The properties \<^verbatim>\<open>Flower\<close> hands through to every \<^verbatim>\<open>Petal\<close> (lines 80 to 85), and
  the properties of a \<^verbatim>\<open>Petal\<close> (line 10): those six and the placement. The colour is a
  string and takes no part in the geometry.
\<close>

type_synonym vec3 = "jsnum \<times> jsnum \<times> jsnum"

record shape_props =
  elongation :: jsnum
  compression :: jsnum
  twist :: jsnum
  noiseScale :: jsnum
  noiseSpeed :: jsnum
  color :: string

record petal_props = shape_props +
  position :: vec3
  rotation :: vec3
  scale :: vec3

text \<open>
  \<^verbatim>\<open>noise3D\<close> is the function \<^verbatim>\<open>createNoise3D()\<close> of the library simplex-noise returns
  (line 8). The library is not part of the repository: the noise function is a parameter
  of everything that samples it.
\<close>

type_synonym noise_fn = "jsnum \<Rightarrow> jsnum \<Rightarrow> jsnum \<Rightarrow> jsnum"

text \<open>
  Lines 30 to 49, the body of the vertex loop between the three reads and the write:
  from the initial coordinates of one vertex to the three values handed to \<^verbatim>\<open>setXYZ\<close>.
  \<open>t\<close> is \<^verbatim>\<open>time.current\<close>. JavaScript's \<^verbatim>\<open>*\<close> associates to the left.
\<close>

definition deform :: "noise_fn \<Rightarrow> petal_props \<Rightarrow> jsnum \<Rightarrow> vec3 \<Rightarrow> vec3" where
  "deform noise3D p t v =
     (case v of (x0, y0, z0) \<Rightarrow>
        let noiseValue = noise3D (x0 * noiseScale p) (y0 * noiseScale p) t * Num 0.2;
            x1 = x0 + noiseValue;
            y1 = y0 + noiseValue;
            z1 = z0 + noiseValue;
            y2 = y1 * (Num 1 + (elongation p - Num 1) * \<bar>y1\<bar>);
            compressionFactor = Num 1 + (compression p - Num 1) * (Num 1 - \<bar>y2\<bar>);
            x2 = x1 * compressionFactor;
            z2 = z1 * compressionFactor;
            twistAngle = y2 * twist p * Math_PI * Num 2;
            cosAngle = Math_cos twistAngle;
            sinAngle = Math_sin twistAngle;
            newX = x2 * cosAngle - z2 * sinAngle;
            newZ = x2 * sinAngle + z2 * cosAngle
        in (newX, y2, newZ))"

text \<open>
  The vertex buffer is a flat \<^verbatim>\<open>Float32Array\<close>, three numbers a vertex. Reading a typed
  array past its end gives \<^verbatim>\<open>undefined\<close>, which every arithmetic operation of the loop
  body turns into \<open>NaN\<close>; writing past its end does nothing, as \<open>list_update\<close> does.
  \<^verbatim>\<open>positionAttribute.count\<close> is the length of the array divided by the item size 3, and
  \<^verbatim>\<open>setXYZ\<close> writes the three slots of vertex \<open>i\<close>.
\<close>

definition read :: "jsnum list \<Rightarrow> nat \<Rightarrow> jsnum" where
  "read a k = (if k < length a then a ! k else NaN)"

definition count :: "jsnum list \<Rightarrow> nat" where
  "count a = length a div 3"

definition setXYZ :: "jsnum list \<Rightarrow> nat \<Rightarrow> vec3 \<Rightarrow> jsnum list" where
  "setXYZ a i v = (case v of (x, y, z) \<Rightarrow> a[i * 3 := x, i * 3 + 1 := y, i * 3 + 2 := z])"

text \<open>Lines 26 to 28: the three reads of vertex \<open>i\<close>.\<close>

definition readXYZ :: "jsnum list \<Rightarrow> nat \<Rightarrow> vec3" where
  "readXYZ a i = (read a (i * 3), read a (i * 3 + 1), read a (i * 3 + 2))"

text \<open>
  Lines 25 to 52: the loop over the vertices, from index \<open>i\<close> on. It reads the initial
  positions \<open>init\<close> and writes the buffer \<open>arr\<close> of the geometry.
\<close>

function vertex_loop ::
  "noise_fn \<Rightarrow> petal_props \<Rightarrow> jsnum \<Rightarrow> jsnum list \<Rightarrow> nat \<Rightarrow> jsnum list \<Rightarrow> jsnum list" where
  "vertex_loop noise3D p t init i arr =
     (if i < count arr
      then vertex_loop noise3D p t init (i + 1)
             (setXYZ arr i (deform noise3D p t (readXYZ init i)))
      else arr)"
  by pat_completeness auto
termination
  by (relation "measure (\<lambda>(noise3D, p, t, init, i, arr). count arr - i)")
     (auto simp: count_def setXYZ_def split: prod.splits)

declare vertex_loop.simps [simp del]

text \<open>
  The three refs of a \<^verbatim>\<open>Petal\<close> instance (lines 11 to 13). \<open>meshRef\<close> holds the position
  array of the geometry of \<^verbatim>\<open>meshRef.current\<close>, and is \<open>None\<close> while no mesh is attached;
  \<open>initialPositions\<close> is \<open>None\<close> until the first frame copies the array.
\<close>

record petal_state =
  meshRef :: "jsnum list option"
  initialPositions :: "jsnum list option"
  time :: jsnum

definition Petal_refs :: petal_state where
  "Petal_refs = \<lparr>meshRef = None, initialPositions = None, time = Num 0\<rparr>"

text \<open>
  Lines 15 to 57, the frame callback. \<^verbatim>\<open>geometry.computeVertexNormals()\<close> and the
  \<^verbatim>\<open>needsUpdate\<close> flag belong to three.js and leave the three refs as they are.
  \<^verbatim>\<open>slice()\<close> copies the array, so the initial positions are a value of their own and
  no write to the buffer reaches them.
\<close>

definition useFrame :: "noise_fn \<Rightarrow> petal_props \<Rightarrow> jsnum \<Rightarrow> petal_state \<Rightarrow> petal_state" where
  "useFrame noise3D p delta s =
     (let s1 = s\<lparr>time := time s + delta * noiseSpeed p\<rparr>
      in case meshRef s1 of
           None \<Rightarrow> s1
         | Some arr \<Rightarrow>
             let init = (case initialPositions s1 of None \<Rightarrow> arr | Some b \<Rightarrow> b);
                 s2 = s1\<lparr>initialPositions := Some init\<rparr>
             in s2\<lparr>meshRef := Some (vertex_loop noise3D p (time s2) init 0 arr)\<rparr>)"

text \<open>
  The renderer calls the callback once a frame, with the properties of the render that
  is current then and the time since the frame before.
\<close>

fun frames :: "noise_fn \<Rightarrow> (petal_props \<times> jsnum) list \<Rightarrow> petal_state \<Rightarrow> petal_state" where
  "frames noise3D [] s = s"
| "frames noise3D ((p, delta) # fs) s = frames noise3D fs (useFrame noise3D p delta s)"

section \<open>The flower: placement of the petals\<close>

record flower_props = shape_props +
  petalCount :: int
  petalSize :: jsnum

record petal_element =
  key :: int
  props :: petal_props

text \<open>
  Lines 71 to 87: the element pushed for index \<open>i\<close>. \<open>petalCount\<close> is the integer
  \<^verbatim>\<open>parseInt\<close> returns (line 125).
\<close>

definition Petal_element :: "flower_props \<Rightarrow> int \<Rightarrow> petal_element" where
  "Petal_element fp i =
     (let angle = (Num (of_int i) / Num (of_int (petalCount fp))) * Math_PI * Num 2;
          x = Math_cos angle * petalSize fp * Num 0.5;
          y = Math_sin angle * petalSize fp * Num 0.5
      in \<lparr>key = i,
          props = \<lparr>elongation = elongation fp, compression = compression fp, twist = twist fp,
                   noiseScale = noiseScale fp, noiseSpeed = noiseSpeed fp, color = color fp,
                   position = (x, y, Num 0),
                   rotation = (Num 0, Num 0, angle),
                   scale = (petalSize fp * Num 0.2, petalSize fp * Num 0.2, petalSize fp * Num 0.2)\<rparr>\<rparr>)"

text \<open>The angle of a placement: the third component of \<^verbatim>\<open>rotation\<close> (line 78).\<close>

definition rotationZ :: "petal_element \<Rightarrow> jsnum" where
  "rotationZ e = snd (snd (rotation (props e)))"

text \<open>Lines 69 to 89: the loop that fills \<^verbatim>\<open>petalArray\<close>, from index \<open>i\<close> on.\<close>

function petals_loop :: "flower_props \<Rightarrow> int \<Rightarrow> petal_element list \<Rightarrow> petal_element list" where
  "petals_loop fp i petalArray =
     (if i < petalCount fp
      then petals_loop fp (i + 1) (petalArray @ [Petal_element fp i])
      else petalArray)"
  by pat_completeness auto
termination
  by (relation "measure (\<lambda>(fp, i, petalArray). nat (petalCount fp - i))") auto

declare petals_loop.simps [simp del]

text \<open>
  \<^verbatim>\<open>useMemo\<close> caches a value that is a function of its dependencies alone, and the
  dependency list (line 90) names every property the loop reads.
\<close>

definition Flower :: "flower_props \<Rightarrow> petal_element list" where
  "Flower fp = petals_loop fp 0 []"

text \<open>
  React keeps one instance, with its refs, for every key of the rendered list. When the
  list is rendered again, a key that was there keeps its instance, a new key gets a fresh
  one (\<open>Petal_refs\<close>), and the instance of a key that is gone is dropped.
\<close>

definition reconcile ::
  "petal_element list \<Rightarrow> (int \<rightharpoonup> petal_state) \<Rightarrow> (int \<rightharpoonup> petal_state)" where
  "reconcile elems insts =
     (\<lambda>k. if k \<in> set (map key elems)
          then (case insts k of None \<Rightarrow> Some Petal_refs | Some s \<Rightarrow> Some s)
          else None)"

section \<open>The pipeline as the specification words it\<close>

text \<open>
  The four stages of the operation \<open>advance\<close> as the specification writes them, each a
  function of the vertex the stage before it returns. They are compared with \<open>deform\<close>
  below.
\<close>

definition spec_noise_displacement :: "noise_fn \<Rightarrow> jsnum \<Rightarrow> jsnum \<Rightarrow> vec3 \<Rightarrow> vec3" where
  "spec_noise_displacement sample ns phase v =
     (case v of (x, y, z) \<Rightarrow>
        let n = sample (x * ns) (y * ns) phase * Num 0.2 in (x + n, y + n, z + n))"

definition spec_elongation :: "jsnum \<Rightarrow> vec3 \<Rightarrow> vec3" where
  "spec_elongation e v = (case v of (x, y, z) \<Rightarrow> (x, y * (Num 1 + (e - Num 1) * \<bar>y\<bar>), z))"

definition spec_compression :: "jsnum \<Rightarrow> vec3 \<Rightarrow> vec3" where
  "spec_compression c v =
     (case v of (x, y', z) \<Rightarrow>
        let factor = Num 1 + (c - Num 1) * (Num 1 - \<bar>y'\<bar>) in (x * factor, y', z * factor))"

definition spec_twist :: "jsnum \<Rightarrow> vec3 \<Rightarrow> vec3" where
  "spec_twist tw v =
     (case v of (x', y', z') \<Rightarrow>
        let angle = y' * tw * (Num 2 * Math_PI)
        in (x' * Math_cos angle - z' * Math_sin angle, y',
            x' * Math_sin angle + z' * Math_cos angle))"

definition spec_pipeline :: "noise_fn \<Rightarrow> petal_props \<Rightarrow> jsnum \<Rightarrow> vec3 \<Rightarrow> vec3" where
  "spec_pipeline sample p phase v =
     spec_twist (twist p)
       (spec_compression (compression p)
          (spec_elongation (elongation p)
             (spec_noise_displacement sample (noiseScale p) phase v)))"

section \<open>Inputs for the examples\<close>

text \<open>
  A noise field to run the examples with: a function of its three arguments alone,
  continuous, with values between -1 and 1, and 0 at the origin.
\<close>

definition wave :: noise_fn where
  "wave x y z = Math_sin (x + y + z)"

definition placed :: "shape_props \<Rightarrow> petal_props" where
  "placed sp = shape_props.extend sp
     (petal_props.fields (Num 0, Num 0, Num 0) (Num 0, Num 0, Num 0) (Num 1, Num 1, Num 1))"

definition neutral :: shape_props where
  "neutral = \<lparr>elongation = Num 1, compression = Num 1, twist = Num 0,
              noiseScale = Num 1, noiseSpeed = Num 0.5, color = ''#ff88cc''\<rparr>"

text \<open>The state \<^verbatim>\<open>App\<close> starts with (lines 96 to 103).\<close>

definition App_initial :: flower_props where
  "App_initial = \<lparr>elongation = Num 1, compression = Num 1, twist = Num 0,
                   noiseScale = Num 1, noiseSpeed = Num 0.5, color = ''#ff88cc'',
                   petalCount = 5, petalSize = Num 2\<rparr>"

text \<open>A petal whose mesh is one vertex, before its first frame.\<close>

definition pole :: petal_state where
  "pole = \<lparr>meshRef = Some [Num 0, Num 1, Num 0], initialPositions = None, time = Num 0\<rparr>"

section \<open>Arithmetic of the numbers\<close>

lemma times_NaN_right [simp]: "a * NaN = NaN" for a :: jsnum
  by (cases a) simp_all

lemma plus_NaN_right [simp]: "a + NaN = NaN" for a :: jsnum
  by (cases a) simp_all

lemma minus_NaN_left [simp]: "NaN - a = NaN" for a :: jsnum
  by (simp add: minus_jsnum_def)

lemma minus_NaN_right [simp]: "a - NaN = NaN" for a :: jsnum
  by (simp add: minus_jsnum_def)

lemma minus_Num [simp]: "Num a - Num b = Num (a - b)"
  by (simp add: minus_jsnum_def)

section \<open>The vertex loop\<close>

lemma length_setXYZ [simp]: "length (setXYZ a i v) = length a"
  by (simp add: setXYZ_def split: prod.splits)

lemma count_setXYZ [simp]: "count (setXYZ a i v) = count a"
  by (simp add: count_def)

lemma readXYZ_setXYZ_same:
  assumes "i < count a"
  shows "readXYZ (setXYZ a i v) i = v"
proof -
  from assms have "i * 3 + 2 < length a"
    unfolding count_def by arith
  then show ?thesis
    by (cases v) (simp add: readXYZ_def read_def setXYZ_def)
qed

lemma readXYZ_setXYZ_other: "j \<noteq> i \<Longrightarrow> readXYZ (setXYZ a i v) j = readXYZ a j"
  by (cases v) (auto simp add: readXYZ_def read_def setXYZ_def)

lemma vertex_loop_step:
  "i < count arr \<Longrightarrow>
   vertex_loop n p t init i arr =
     vertex_loop n p t init (Suc i) (setXYZ arr i (deform n p t (readXYZ init i)))"
  by (subst vertex_loop.simps) simp

lemma vertex_loop_done: "\<not> i < count arr \<Longrightarrow> vertex_loop n p t init i arr = arr"
  by (subst vertex_loop.simps) simp

lemma length_vertex_loop [simp]: "length (vertex_loop n p t init i arr) = length arr"
proof (induction n p t init i arr rule: vertex_loop.induct)
  case (1 n p t init i arr)
  show ?case
  proof (cases "i < count arr")
    case True
    with 1 show ?thesis by (simp add: vertex_loop_step)
  next
    case False
    then show ?thesis by (simp add: vertex_loop_done)
  qed
qed

lemma count_vertex_loop [simp]: "count (vertex_loop n p t init i arr) = count arr"
  by (simp add: count_def)

text \<open>The loop leaves the vertices below its start index alone.\<close>

lemma vertex_loop_before:
  "j < i \<Longrightarrow> readXYZ (vertex_loop n p t init i arr) j = readXYZ arr j"
proof (induction n p t init i arr rule: vertex_loop.induct)
  case (1 n p t init i arr)
  show ?case
  proof (cases "i < count arr")
    case True
    with 1 show ?thesis by (simp add: vertex_loop_step readXYZ_setXYZ_other)
  next
    case False
    then show ?thesis by (simp add: vertex_loop_done)
  qed
qed

text \<open>Every vertex from the start index on is written once, from the initial positions.\<close>

lemma vertex_loop_from:
  "i \<le> j \<Longrightarrow> j < count arr \<Longrightarrow>
   readXYZ (vertex_loop n p t init i arr) j = deform n p t (readXYZ init j)"
proof (induction n p t init i arr rule: vertex_loop.induct)
  case (1 n p t init i arr)
  from 1(2,3) have lt: "i < count arr" by simp
  show ?case
  proof (cases "j = i")
    case True
    then show ?thesis using lt
      by (simp add: vertex_loop_step vertex_loop_before readXYZ_setXYZ_same)
  next
    case False
    with 1 lt show ?thesis by (simp add: vertex_loop_step)
  qed
qed

text \<open>The loop leaves what lies behind the last whole vertex alone.\<close>

lemma drop_setXYZ:
  assumes "i < count a"
  shows "drop (count a * 3) (setXYZ a i v) = drop (count a * 3) a"
proof -
  from assms have "i * 3 + 2 < count a * 3" by simp
  then show ?thesis
    by (cases v) (simp add: setXYZ_def)
qed

lemma drop_vertex_loop:
  "drop (count arr * 3) (vertex_loop n p t init i arr) = drop (count arr * 3) arr"
proof (induction n p t init i arr rule: vertex_loop.induct)
  case (1 n p t init i arr)
  show ?case
  proof (cases "i < count arr")
    case True
    with 1 show ?thesis by (simp add: vertex_loop_step drop_setXYZ)
  next
    case False
    then show ?thesis by (simp add: vertex_loop_done)
  qed
qed

text \<open>
  Two buffers are equal when they agree vertex by vertex and behind the last whole
  vertex.
\<close>

lemma array_eqI:
  assumes len: "length a = length b"
    and v: "\<And>j. j < count a \<Longrightarrow> readXYZ a j = readXYZ b j"
    and rest: "drop (count a * 3) a = drop (count a * 3) b"
  shows "a = b"
proof (rule nth_equalityI [OF len])
  fix k assume k: "k < length a"
  show "a ! k = b ! k"
  proof (cases "k < count a * 3")
    case True
    define j where "j = k div 3"
    have j: "j < count a" and hi: "j * 3 + 2 < length a"
      using True k unfolding count_def j_def by arith+
    have cases: "k = j * 3 \<or> k = j * 3 + 1 \<or> k = j * 3 + 2"
      unfolding j_def by arith
    from v [OF j] hi len
    have "a ! (j * 3) = b ! (j * 3)" "a ! (j * 3 + 1) = b ! (j * 3 + 1)"
      "a ! (j * 3 + 2) = b ! (j * 3 + 2)"
      by (simp_all add: readXYZ_def read_def)
    with cases show ?thesis by auto
  next
    case False
    then have "a ! k = drop (count a * 3) a ! (k - count a * 3)"
      using k by simp
    also have "\<dots> = drop (count a * 3) b ! (k - count a * 3)"
      by (simp only: rest)
    also have "\<dots> = b ! k"
      using False k len by simp
    finally show ?thesis .
  qed
qed

section \<open>The frame callback\<close>

lemma Math_PI_assoc: "a * Math_PI * Num 2 = a * (Num 2 * Math_PI)"
  by (cases a) (simp_all add: Math_PI_def)

text \<open>The loop body is the composition of the four stages of the specification.\<close>

lemma deform_stages: "deform noise3D p t v = spec_pipeline noise3D p t v"
  by (cases v)
     (simp add: deform_def spec_pipeline_def spec_twist_def spec_compression_def
        spec_elongation_def spec_noise_displacement_def Let_def Math_PI_assoc)

lemma useFrame_time: "time (useFrame noise3D p delta s) = time s + delta * noiseSpeed p"
  by (simp add: useFrame_def Let_def split: option.splits)

lemma useFrame_mesh:
  "meshRef s = Some arr \<Longrightarrow>
   meshRef (useFrame noise3D p delta s) =
     Some (vertex_loop noise3D p (time s + delta * noiseSpeed p)
             (case initialPositions s of None \<Rightarrow> arr | Some b \<Rightarrow> b) 0 arr)"
  by (simp add: useFrame_def Let_def split: option.splits)

lemma useFrame_initial:
  "meshRef s = Some arr \<Longrightarrow>
   initialPositions (useFrame noise3D p delta s) =
     Some (case initialPositions s of None \<Rightarrow> arr | Some b \<Rightarrow> b)"
  by (simp add: useFrame_def Let_def split: option.splits)

lemma useFrame_unmounted:
  "meshRef s = None \<Longrightarrow>
   useFrame noise3D p delta s = s\<lparr>time := time s + delta * noiseSpeed p\<rparr>"
  by (simp add: useFrame_def Let_def)

text \<open>
  Once the initial positions are taken they stay, and every frame deforms them anew.
\<close>

lemma frames_snoc:
  "frames n (fs @ [(p, d)]) s = useFrame n p d (frames n fs s)"
  by (induction fs arbitrary: s) auto

lemma useFrame_keeps_base:
  assumes "meshRef s = Some a" and "length a = length arr"
    and "initialPositions s = Some arr \<or> initialPositions s = None \<and> a = arr"
  shows "meshRef (useFrame n p d s) =
           Some (vertex_loop n p (time s + d * noiseSpeed p) arr 0 a)
         \<and> initialPositions (useFrame n p d s) = Some arr"
  using assms by (auto simp: useFrame_mesh useFrame_initial)

lemma frames_keep_base:
  assumes "meshRef s = Some a" and "length a = length arr"
    and "drop (count arr * 3) a = drop (count arr * 3) arr"
    and "initialPositions s = Some arr \<or> initialPositions s = None \<and> a = arr"
  shows "\<exists>a'. meshRef (frames n fs s) = Some a' \<and> length a' = length arr \<and>
           drop (count arr * 3) a' = drop (count arr * 3) arr \<and>
           (initialPositions (frames n fs s) = Some arr \<or>
            initialPositions (frames n fs s) = None \<and> a' = arr)"
  using assms
proof (induction fs arbitrary: s a)
  case Nil
  then show ?case by simp
next
  case (Cons f fs)
  obtain p d where f: "f = (p, d)" by (cases f)
  let ?a = "vertex_loop n p (time s + d * noiseSpeed p) arr 0 a"
  from useFrame_keeps_base [OF Cons.prems(1,2,4), of n p d]
  have m: "meshRef (useFrame n p d s) = Some ?a"
    and i: "initialPositions (useFrame n p d s) = Some arr"
    by simp_all
  from Cons.prems(2) have l: "length ?a = length arr"
    by simp
  from Cons.prems(2) have "count a = count arr"
    by (simp add: count_def)
  with Cons.prems(3) drop_vertex_loop [of a n p "time s + d * noiseSpeed p" arr 0]
  have r: "drop (count arr * 3) ?a = drop (count arr * 3) arr"
    by simp
  from Cons.IH [OF m l r] i show ?case by (simp add: f)
qed

text \<open>
  What the loop returns does not depend on what the buffer held before, behind the last
  whole vertex apart.
\<close>

lemma vertex_loop_whole:
  assumes "length a = length b" and "drop (count a * 3) a = drop (count a * 3) b"
  shows "vertex_loop n p t init 0 a = vertex_loop n p t init 0 b"
proof (rule array_eqI)
  show "length (vertex_loop n p t init 0 a) = length (vertex_loop n p t init 0 b)"
    using assms by simp
next
  fix j assume "j < count (vertex_loop n p t init 0 a)"
  then have "j < count a" "j < count b" using assms by (simp_all add: count_def)
  then show "readXYZ (vertex_loop n p t init 0 a) j = readXYZ (vertex_loop n p t init 0 b) j"
    by (simp add: vertex_loop_from)
next
  from assms(1) have "count b = count a" by (simp add: count_def)
  with assms(2) drop_vertex_loop [of a n p t init 0] drop_vertex_loop [of b n p t init 0]
  show "drop (count (vertex_loop n p t init 0 a) * 3) (vertex_loop n p t init 0 a) =
        drop (count (vertex_loop n p t init 0 a) * 3) (vertex_loop n p t init 0 b)"
    by simp
qed

lemma deform_y_cong:
  "elongation p = elongation q \<Longrightarrow> noiseScale p = noiseScale q \<Longrightarrow>
   fst (snd (deform n p t v)) = fst (snd (deform n q t v))"
  by (cases v) (simp add: deform_def Let_def)

lemma read_y: "read a (i * 3 + 1) = fst (snd (readXYZ a i))"
  by (simp add: readXYZ_def)

section \<open>Properties of the deformation\<close>

text \<open>
  Claim C1. One frame writes, for every vertex of the buffer, the result of the four
  stages applied in the order noise displacement, elongation, compression, twist to the
  initial position of that vertex: the noise is sampled at the elapsed phase after this
  frame's increment and its fifth part is added to x, y and z; y is elongated; x and z are
  scaled by the compression factor computed from the elongated y; x and z are rotated by
  the angle computed from the elongated y; and y is written as elongated.
\<close>

theorem advance_four_stages:
  assumes "meshRef s = Some arr" and "i < count arr"
  shows "\<exists>arr'. meshRef (useFrame noise3D p delta s) = Some arr' \<and>
           readXYZ arr' i =
             spec_pipeline noise3D p (time s + delta * noiseSpeed p)
               (readXYZ (case initialPositions s of None \<Rightarrow> arr | Some b \<Rightarrow> b) i)"
  using assms by (simp add: useFrame_mesh vertex_loop_from deform_stages)

theorem advance_four_stages_witness:
  "meshRef pole = Some [Num 0, Num 1, Num 0] \<and> 0 < count [Num 0, Num 1, Num 0] \<and>
   (\<exists>arr'. meshRef (useFrame wave (placed neutral) (Num 2) pole) = Some arr' \<and>
      readXYZ arr' 0 =
        spec_pipeline wave (placed neutral) (time pole + Num 2 * noiseSpeed (placed neutral))
          (readXYZ (case initialPositions pole of None \<Rightarrow> [Num 0, Num 1, Num 0] | Some b \<Rightarrow> b) 0))"
  using advance_four_stages [of pole "[Num 0, Num 1, Num 0]" 0 wave "placed neutral" "Num 2"]
  by (simp add: pole_def count_def)

text \<open>
  Claim C9. From the first frame on and whatever the properties of each frame are, the
  buffer a frame leaves has the length, and so the vertex count, of the base mesh taken
  at the first frame, and its vertex \<open>i\<close> is the deformation of vertex \<open>i\<close> of the base
  mesh.
\<close>

theorem vertex_count_invariant:
  assumes "meshRef s = Some arr" and "initialPositions s = None"
  shows "\<exists>arr'. meshRef (frames noise3D (fs @ [(p, delta)]) s) = Some arr' \<and>
           initialPositions (frames noise3D (fs @ [(p, delta)]) s) = Some arr \<and>
           length arr' = length arr \<and> count arr' = count arr \<and>
           (\<forall>i<count arr. readXYZ arr' i =
              deform noise3D p (time (frames noise3D (fs @ [(p, delta)]) s)) (readXYZ arr i))"
proof -
  from frames_keep_base [of s arr arr noise3D fs] assms
  obtain a where a: "meshRef (frames noise3D fs s) = Some a" "length a = length arr"
    "initialPositions (frames noise3D fs s) = Some arr \<or>
     initialPositions (frames noise3D fs s) = None \<and> a = arr"
    by auto
  from useFrame_keeps_base [OF a, of noise3D p delta] a(2)
  show ?thesis
    by (simp add: frames_snoc useFrame_time vertex_loop_from count_def)
qed

theorem vertex_count_invariant_witness:
  "meshRef pole = Some [Num 0, Num 1, Num 0] \<and> initialPositions pole = None \<and>
   (0::nat) < count [Num 0, Num 1, Num 0] \<and>
   (\<exists>arr'. meshRef (frames wave [(placed neutral, Num 2)] pole) = Some arr' \<and>
      length arr' = 3 \<and> count arr' = 1 \<and>
      readXYZ arr' 0 = deform wave (placed neutral) (Num 1) (Num 0, Num 1, Num 0))"
proof -
  have m: "meshRef pole = Some [Num 0, Num 1, Num 0]" and i: "initialPositions pole = None"
    by (simp_all add: pole_def)
  have c: "count [Num 0, Num 1, Num 0] = 1"
    by (simp add: count_def)
  have r: "readXYZ [Num 0, Num 1, Num 0] 0 = (Num 0, Num 1, Num 0)"
    by (simp add: readXYZ_def read_def)
  have t: "time (useFrame wave (placed neutral) (Num 2) pole) = Num 1"
    by (simp add: useFrame_time pole_def placed_def neutral_def shape_props.defs petal_props.defs)
  from vertex_count_invariant [OF m i, of wave "[]" "placed neutral" "Num 2"] m i
  show ?thesis
    by (auto simp: t c r)
qed

text \<open>
  Claim C5. No frame changes the initial positions once they are taken, and the buffer
  a frame leaves is the deformation of the initial positions under that frame's
  properties and elapsed phase, whatever the frames before it wrote; so two frames with
  the same properties and the same elapsed phase leave the same buffer.
\<close>

theorem advance_from_base:
  assumes "meshRef s = Some arr" and "initialPositions s = None"
  shows "initialPositions (frames noise3D (fs @ [(p, delta)]) s) = Some arr \<and>
         meshRef (frames noise3D (fs @ [(p, delta)]) s) =
           Some (vertex_loop noise3D p (time (frames noise3D (fs @ [(p, delta)]) s)) arr 0 arr) \<and>
         (time (frames noise3D (fs' @ [(p, delta')]) s) = time (frames noise3D (fs @ [(p, delta)]) s) \<longrightarrow>
            meshRef (frames noise3D (fs' @ [(p, delta')]) s) = meshRef (frames noise3D (fs @ [(p, delta)]) s))"
proof -
  have one: "initialPositions (frames noise3D (gs @ [(p, d)]) s) = Some arr \<and>
         meshRef (frames noise3D (gs @ [(p, d)]) s) =
           Some (vertex_loop noise3D p (time (frames noise3D (gs @ [(p, d)]) s)) arr 0 arr)" for gs d
  proof -
    from frames_keep_base [of s arr arr noise3D gs] assms
    obtain a where a: "meshRef (frames noise3D gs s) = Some a" "length a = length arr"
      "initialPositions (frames noise3D gs s) = Some arr \<or>
       initialPositions (frames noise3D gs s) = None \<and> a = arr"
      and r: "drop (count arr * 3) a = drop (count arr * 3) arr"
      by auto
    from a(2) have "count a = count arr" by (simp add: count_def)
    with a(2) r have "vertex_loop noise3D p t arr 0 a = vertex_loop noise3D p t arr 0 arr" for t
      by (intro vertex_loop_whole) simp_all
    with useFrame_keeps_base [OF a, of noise3D p d]
    show ?thesis by (simp add: frames_snoc useFrame_time)
  qed
  from one [of fs delta] one [of fs' delta'] show ?thesis by simp
qed

theorem advance_from_base_witness:
  "meshRef pole = Some [Num 0, Num 1, Num 0] \<and> initialPositions pole = None \<and>
   time (frames wave ([(placed neutral, Num 1)] @ [(placed neutral, Num 1)]) pole) =
     time (frames wave ([] @ [(placed neutral, Num 2)]) pole) \<and>
   initialPositions (frames wave [(placed neutral, Num 2)] pole) = Some [Num 0, Num 1, Num 0] \<and>
   meshRef (frames wave ([(placed neutral, Num 1)] @ [(placed neutral, Num 1)]) pole) =
     meshRef (frames wave ([] @ [(placed neutral, Num 2)]) pole)"
  using advance_from_base [of pole "[Num 0, Num 1, Num 0]" wave "[]" "placed neutral" "Num 2"
      "[(placed neutral, Num 1)]" "Num 1"]
  by (simp add: pole_def useFrame_time placed_def neutral_def shape_props.defs petal_props.defs)

text \<open>
  Claim C10. Two property sets that agree on elongation, noise scale and noise speed
  give every vertex the same y in a frame from the same state, whatever their twist and
  compression are.
\<close>

theorem y_independent_of_twist_and_compression:
  assumes "meshRef s = Some arr" and "i < count arr"
    and "elongation p = elongation q" and "noiseScale p = noiseScale q"
    and "noiseSpeed p = noiseSpeed q"
  shows "\<exists>a b. meshRef (useFrame noise3D p delta s) = Some a \<and>
           meshRef (useFrame noise3D q delta s) = Some b \<and>
           read a (i * 3 + 1) = read b (i * 3 + 1)"
proof -
  let ?t = "time s + delta * noiseSpeed p"
  let ?base = "case initialPositions s of None \<Rightarrow> arr | Some b \<Rightarrow> b"
  have "fst (snd (readXYZ (vertex_loop noise3D p ?t ?base 0 arr) i)) =
        fst (snd (readXYZ (vertex_loop noise3D q ?t ?base 0 arr) i))"
    using assms by (simp add: vertex_loop_from deform_y_cong [of p q])
  then have "read (vertex_loop noise3D p ?t ?base 0 arr) (i * 3 + 1) =
             read (vertex_loop noise3D q ?t ?base 0 arr) (i * 3 + 1)"
    by (simp only: read_y)
  with assms show ?thesis
    by (simp add: useFrame_mesh)
qed

theorem y_independent_witness:
  "meshRef pole = Some [Num 0, Num 1, Num 0] \<and> (0::nat) < count [Num 0, Num 1, Num 0] \<and>
   elongation (placed neutral) = elongation (placed (neutral\<lparr>compression := Num 0.5, twist := Num 2\<rparr>)) \<and>
   noiseScale (placed neutral) = noiseScale (placed (neutral\<lparr>compression := Num 0.5, twist := Num 2\<rparr>)) \<and>
   noiseSpeed (placed neutral) = noiseSpeed (placed (neutral\<lparr>compression := Num 0.5, twist := Num 2\<rparr>)) \<and>
   (\<exists>a b. meshRef (useFrame wave (placed neutral) (Num 2) pole) = Some a \<and>
      meshRef (useFrame wave (placed (neutral\<lparr>compression := Num 0.5, twist := Num 2\<rparr>)) (Num 2) pole) = Some b \<and>
      read a (0 * 3 + 1) = read b (0 * 3 + 1))"
  using y_independent_of_twist_and_compression [of pole "[Num 0, Num 1, Num 0]" 0 "placed neutral"
      "placed (neutral\<lparr>compression := Num 0.5, twist := Num 2\<rparr>)" wave "Num 2"]
  by (simp add: pole_def count_def placed_def neutral_def shape_props.defs petal_props.defs)

text \<open>
  Claim C8. With twist 0 the loop body returns the coordinates the compression stage
  produced, for any elongation and compression, when those coordinates are finite.
\<close>

theorem twist_zero_identity:
  assumes "twist p = Num 0"
    and "spec_compression (compression p)
           (spec_elongation (elongation p)
              (spec_noise_displacement noise3D (noiseScale p) t v)) = (Num x', Num y', Num z')"
  shows "deform noise3D p t v = (Num x', Num y', Num z')"
  using assms by (simp add: deform_stages spec_pipeline_def spec_twist_def Math_PI_def)

theorem twist_zero_identity_witness:
  "twist (placed (neutral\<lparr>elongation := Num 2, compression := Num 0.5, noiseScale := Num 0\<rparr>)) = Num 0 \<and>
   spec_compression (Num 0.5) (spec_elongation (Num 2)
      (spec_noise_displacement wave (Num 0) (Num 0) (Num 1, Num 1, Num 0))) = (Num 1.5, Num 2, Num 0) \<and>
   deform wave (placed (neutral\<lparr>elongation := Num 2, compression := Num 0.5, noiseScale := Num 0\<rparr>))
     (Num 0) (Num 1, Num 1, Num 0) = (Num 1.5, Num 2, Num 0)"
proof -
  let ?p = "placed (neutral\<lparr>elongation := Num 2, compression := Num 0.5, noiseScale := Num 0\<rparr>)"
  have tw: "twist ?p = Num 0"
    by (simp add: placed_def neutral_def shape_props.defs petal_props.defs)
  have pc: "spec_compression (compression ?p) (spec_elongation (elongation ?p)
      (spec_noise_displacement wave (noiseScale ?p) (Num 0) (Num 1, Num 1, Num 0))) = (Num 1.5, Num 2, Num 0)"
    by (simp add: placed_def neutral_def shape_props.defs petal_props.defs spec_compression_def
        spec_elongation_def spec_noise_displacement_def wave_def)
  from twist_zero_identity [OF tw pc] tw pc show ?thesis
    by (simp add: placed_def neutral_def shape_props.defs petal_props.defs)
qed

section \<open>Neutral shape parameters\<close>

text \<open>One frame of the one-vertex mesh \<open>pole\<close>, for the examples.\<close>

lemma useFrame_pole:
  "useFrame noise3D p delta pole =
     \<lparr>meshRef = Some (vertex_loop noise3D p (Num 0 + delta * noiseSpeed p) [Num 0, Num 1, Num 0] 0 [Num 0, Num 1, Num 0]),
      initialPositions = Some [Num 0, Num 1, Num 0], time = Num 0 + delta * noiseSpeed p\<rparr>"
  by (simp add: useFrame_def pole_def Let_def)

lemma vertex_loop_one:
  "vertex_loop n p t [a, b, c] 0 [a', b', c'] = 
     (case deform n p t (a, b, c) of (x, y, z) \<Rightarrow> [x, y, z])"
  by (simp add: vertex_loop_step vertex_loop_done count_def setXYZ_def readXYZ_def read_def split: prod.splits)

lemma deform_neutral:
  assumes "elongation p = Num 1" and "compression p = Num 1" and "twist p = Num 0"
    and "noise3D (Num x * noiseScale p) (Num y * noiseScale p) t = Num n"
  shows "deform noise3D p t (Num x, Num y, Num z) =
           (Num (x + n * 0.2), Num (y + n * 0.2), Num (z + n * 0.2))"
  using assms by (simp add: deform_def Let_def Math_PI_def)

text \<open>
  Claim C2, as the code has it. With elongation 1, compression 1 and twist 0 a frame
  writes, for a finite base vertex, that vertex moved by a fifth of the noise sample on
  all three axes, so it writes the base vertex back exactly when the sample is 0. The
  sample is taken at (x * noiseScale, y * noiseScale, phase): a noise scale of 0 moves
  the sample point to (0, 0, phase), and a noise speed of 0 keeps the phase where it is;
  neither makes the sample 0.
\<close>

theorem neutral_shape_displaces_by_noise:
  assumes "meshRef s = Some arr" and "i < count arr"
    and "readXYZ (case initialPositions s of None \<Rightarrow> arr | Some b \<Rightarrow> b) i = (Num x, Num y, Num z)"
    and "elongation p = Num 1" and "compression p = Num 1" and "twist p = Num 0"
    and "noise3D (Num x * noiseScale p) (Num y * noiseScale p) (time s + delta * noiseSpeed p) = Num n"
  shows "\<exists>arr'. meshRef (useFrame noise3D p delta s) = Some arr' \<and>
           readXYZ arr' i = (Num (x + n * 0.2), Num (y + n * 0.2), Num (z + n * 0.2)) \<and>
           (readXYZ arr' i = (Num x, Num y, Num z) \<longleftrightarrow> n = 0)"
  using assms by (simp add: useFrame_mesh vertex_loop_from deform_neutral)

theorem neutral_shape_witness:
  "meshRef pole = Some [Num 0, Num 1, Num 0] \<and> (0::nat) < count [Num 0, Num 1, Num 0] \<and>
   readXYZ (case initialPositions pole of None \<Rightarrow> [Num 0, Num 1, Num 0] | Some b \<Rightarrow> b) 0
     = (Num 0, Num 1, Num 0) \<and>
   elongation (placed (neutral\<lparr>noiseScale := Num 0\<rparr>)) = Num 1 \<and>
   compression (placed (neutral\<lparr>noiseScale := Num 0\<rparr>)) = Num 1 \<and>
   twist (placed (neutral\<lparr>noiseScale := Num 0\<rparr>)) = Num 0 \<and>
   wave (Num 0 * Num 0) (Num 1 * Num 0) (time pole + Num 0 * Num 0.5) = Num 0 \<and>
   (\<exists>arr'. meshRef (useFrame wave (placed (neutral\<lparr>noiseScale := Num 0\<rparr>)) (Num 0) pole) = Some arr' \<and>
      readXYZ arr' 0 = (Num 0, Num 1, Num 0))"
proof -
  let ?p = "placed (neutral\<lparr>noiseScale := Num 0\<rparr>)"
  have m: "meshRef pole = Some [Num 0, Num 1, Num 0]" by (simp add: pole_def)
  have c: "(0::nat) < count [Num 0, Num 1, Num 0]" by (simp add: count_def)
  have r: "readXYZ (case initialPositions pole of None \<Rightarrow> [Num 0, Num 1, Num 0] | Some b \<Rightarrow> b) 0
     = (Num 0, Num 1, Num 0)" by (simp add: pole_def readXYZ_def read_def)
  have e: "elongation ?p = Num 1" and k: "compression ?p = Num 1" and tw: "twist ?p = Num 0"
    by (simp_all add: placed_def neutral_def shape_props.defs petal_props.defs)
  have w: "wave (Num 0 * noiseScale ?p) (Num 1 * noiseScale ?p) (time pole + Num 0 * noiseSpeed ?p) = Num 0"
    by (simp add: wave_def pole_def placed_def neutral_def shape_props.defs petal_props.defs)
  from neutral_shape_displaces_by_noise [where ?noise3D = wave and ?delta = "Num 0", OF m c r e k tw w]
    m c r e k tw w
  show ?thesis
    by (simp add: placed_def neutral_def shape_props.defs petal_props.defs)
qed

text \<open>
  The claim as stated fails for the noise field \<open>wave\<close> at the vertex (0, 1, 0), with
  elongation 1, compression 1 and twist 0: with noise scale 0 at the phase \<open>pi / 2\<close>, and
  with noise speed 0 at the phase 0 and the noise scale \<open>pi / 2\<close>, the frame writes
  (0.2, 1.2, 0.2).
\<close>

theorem identity_parameters_counterexample:
  "initialPositions
     (useFrame wave (placed (neutral\<lparr>noiseScale := Num 0, noiseSpeed := Num 1\<rparr>)) (Num (pi / 2)) pole)
     = Some [Num 0, Num 1, Num 0] \<and>
   meshRef
     (useFrame wave (placed (neutral\<lparr>noiseScale := Num 0, noiseSpeed := Num 1\<rparr>)) (Num (pi / 2)) pole)
     = Some [Num 0.2, Num 1.2, Num 0.2] \<and>
   time
     (useFrame wave (placed (neutral\<lparr>noiseScale := Num (pi / 2), noiseSpeed := Num 0\<rparr>)) (Num 1) pole)
     = Num 0 \<and>
   meshRef
     (useFrame wave (placed (neutral\<lparr>noiseScale := Num (pi / 2), noiseSpeed := Num 0\<rparr>)) (Num 1) pole)
     = Some [Num 0.2, Num 1.2, Num 0.2] \<and>
   [Num 0.2, Num 1.2, Num 0.2] \<noteq> [Num 0, Num 1, Num 0]"
  by (simp add: useFrame_pole vertex_loop_one deform_def Let_def wave_def Math_PI_def
      placed_def neutral_def shape_props.defs petal_props.defs)

section \<open>Non-finite parameters\<close>

lemma deform_NaN_elongation: "elongation p = NaN \<Longrightarrow> deform n p t v = (NaN, NaN, NaN)"
  by (cases v) (simp add: deform_def Let_def)

text \<open>
  Claim C3, as the code has it. The frame callback uses the shape parameters as they
  come. A frame is still produced and keeps the length of the buffer, and when the
  elongation is \<open>NaN\<close> every coordinate of every vertex it writes is \<open>NaN\<close>, whatever the
  other parameters, the noise and the base mesh are.
\<close>

theorem nan_elongation_propagates:
  assumes "meshRef s = Some arr" and "i < count arr" and "elongation p = NaN"
  shows "\<exists>arr'. meshRef (useFrame noise3D p delta s) = Some arr' \<and>
           length arr' = length arr \<and> readXYZ arr' i = (NaN, NaN, NaN)"
  using assms by (simp add: useFrame_mesh vertex_loop_from deform_NaN_elongation)

theorem nan_elongation_propagates_witness:
  "meshRef pole = Some [Num 0, Num 1, Num 0] \<and> (0::nat) < count [Num 0, Num 1, Num 0] \<and>
   elongation (placed (neutral\<lparr>elongation := NaN\<rparr>)) = NaN \<and>
   (\<exists>arr'. meshRef (useFrame wave (placed (neutral\<lparr>elongation := NaN\<rparr>)) (Num 1) pole) = Some arr' \<and>
      length arr' = length [Num 0, Num 1, Num 0] \<and> readXYZ arr' 0 = (NaN, NaN, NaN))"
  using nan_elongation_propagates [of pole "[Num 0, Num 1, Num 0]" 0
      "placed (neutral\<lparr>elongation := NaN\<rparr>)" wave "Num 1"]
  by (simp add: pole_def count_def placed_def neutral_def shape_props.defs petal_props.defs)

text \<open>
  The claim as stated fails with the elongation \<open>NaN\<close> and every other parameter
  finite: the frame writes \<open>NaN\<close> into all three coordinates of the vertex.
\<close>

theorem non_finite_parameter_counterexample:
  "isFinite (elongation (placed (neutral\<lparr>elongation := NaN\<rparr>))) = False \<and>
   meshRef (useFrame wave (placed (neutral\<lparr>elongation := NaN\<rparr>)) (Num 1) pole) = Some [NaN, NaN, NaN]"
  by (simp add: useFrame_pole vertex_loop_one deform_NaN_elongation
      placed_def neutral_def shape_props.defs petal_props.defs)

section \<open>Elongation\<close>

lemma deform_y:
  assumes "spec_noise_displacement noise3D (noiseScale p) t v = (x1, y1, z1)"
  shows "fst (snd (deform noise3D p t v)) = y1 * (Num 1 + (elongation p - Num 1) * \<bar>y1\<bar>)"
  using assms
  by (cases v) (auto simp add: deform_def spec_noise_displacement_def Let_def)

lemma elongate_grows:
  fixes e y :: real
  assumes "1 < e"
  shows "\<bar>y\<bar> \<le> \<bar>y * (1 + (e - 1) * \<bar>y\<bar>)\<bar>"
proof -
  have "0 \<le> (e - 1) * \<bar>y\<bar>" using assms by simp
  then have "1 \<le> \<bar>1 + (e - 1) * \<bar>y\<bar>\<bar>" by linarith
  then have "\<bar>y\<bar> * 1 \<le> \<bar>y\<bar> * \<bar>1 + (e - 1) * \<bar>y\<bar>\<bar>"
    by (intro mult_left_mono) simp_all
  then show ?thesis by (simp add: abs_mult)
qed

lemma elongate_shrinks:
  fixes e y :: real
  assumes "e < 1"
  shows "\<bar>y * (1 + (e - 1) * \<bar>y\<bar>)\<bar> \<le> \<bar>y\<bar> \<longleftrightarrow> (1 - e) * \<bar>y\<bar> \<le> 2"
proof (cases "y = 0")
  case True
  then show ?thesis by simp
next
  case False
  then have pos: "0 < \<bar>y\<bar>" by simp
  have le: "(e - 1) * \<bar>y\<bar> \<le> 0" using assms by (simp add: mult_le_0_iff)
  have "\<bar>y * (1 + (e - 1) * \<bar>y\<bar>)\<bar> \<le> \<bar>y\<bar> \<longleftrightarrow> \<bar>y\<bar> * \<bar>1 + (e - 1) * \<bar>y\<bar>\<bar> \<le> \<bar>y\<bar> * 1"
    by (simp add: abs_mult)
  also have "\<dots> \<longleftrightarrow> \<bar>1 + (e - 1) * \<bar>y\<bar>\<bar> \<le> 1"
    using pos by (simp only: mult_le_cancel_left_pos)
  also have "\<dots> \<longleftrightarrow> - 2 \<le> (e - 1) * \<bar>y\<bar>"
    using le by linarith
  also have "\<dots> \<longleftrightarrow> (1 - e) * \<bar>y\<bar> \<le> 2"
    by (simp add: algebra_simps)
  finally show ?thesis .
qed

text \<open>
  Claim C7, as the code has it. For a finite elongation \<open>e\<close> and a vertex that enters
  the elongation with a finite \<open>y\<close>, the loop body returns \<open>y' = y * (1 + (e - 1) * \<bar>y\<bar>)\<close>;
  if \<open>1 < e\<close> then \<open>\<bar>y\<bar> \<le> \<bar>y'\<bar>\<close>, and if \<open>e < 1\<close> then \<open>\<bar>y'\<bar> \<le> \<bar>y\<bar>\<close> holds exactly when
  \<open>(1 - e) * \<bar>y\<bar> \<le> 2\<close>.
\<close>

theorem elongation_monotone:
  assumes "elongation p = Num e"
    and "spec_noise_displacement noise3D (noiseScale p) t v = (x1, Num y, z1)"
  shows "fst (snd (deform noise3D p t v)) = Num (y * (1 + (e - 1) * \<bar>y\<bar>)) \<and>
         (1 < e \<longrightarrow> \<bar>y\<bar> \<le> \<bar>y * (1 + (e - 1) * \<bar>y\<bar>)\<bar>) \<and>
         (e < 1 \<longrightarrow> (\<bar>y * (1 + (e - 1) * \<bar>y\<bar>)\<bar> \<le> \<bar>y\<bar> \<longleftrightarrow> (1 - e) * \<bar>y\<bar> \<le> 2))"
  using assms elongate_grows [of e y] elongate_shrinks [of e y]
  by (simp add: deform_y)

theorem elongation_monotone_witness:
  "elongation (placed (neutral\<lparr>elongation := Num 0.5, noiseScale := Num 0\<rparr>)) = Num 0.5 \<and>
   spec_noise_displacement wave (Num 0) (Num 0) (Num 0, Num 1, Num 0) = (Num 0, Num 1, Num 0) \<and>
   fst (snd (deform wave (placed (neutral\<lparr>elongation := Num 0.5, noiseScale := Num 0\<rparr>)) (Num 0)
     (Num 0, Num 1, Num 0))) = Num 0.5 \<and>
   (0.5::real) < 1 \<and> (1 - 0.5) * \<bar>1::real\<bar> \<le> 2 \<and> \<bar>0.5::real\<bar> \<le> \<bar>1\<bar>"
proof -
  let ?p = "placed (neutral\<lparr>elongation := Num 0.5, noiseScale := Num 0\<rparr>)"
  have e: "elongation ?p = Num 0.5"
    by (simp add: placed_def neutral_def shape_props.defs petal_props.defs)
  have n: "spec_noise_displacement wave (noiseScale ?p) (Num 0) (Num 0, Num 1, Num 0)
             = (Num 0, Num 1, Num 0)"
    by (simp add: spec_noise_displacement_def Let_def wave_def placed_def neutral_def
        shape_props.defs petal_props.defs)
  from elongation_monotone [OF e n] e n show ?thesis
    by (simp add: placed_def neutral_def shape_props.defs petal_props.defs)
qed

text \<open>
  The claim as stated fails below 1: the elongation -2 takes y = 1 to -2, and the
  elongation 0.5 takes y = 6 to -12.
\<close>

theorem elongation_monotone_counterexample:
  "fst (snd (deform wave (placed (neutral\<lparr>elongation := Num (- 2), noiseScale := Num 0\<rparr>)) (Num 0)
     (Num 0, Num 1, Num 0))) = Num (- 2) \<and> \<not> \<bar>- 2 :: real\<bar> \<le> \<bar>1\<bar> \<and>
   fst (snd (deform wave (placed (neutral\<lparr>elongation := Num 0.5, noiseScale := Num 0\<rparr>)) (Num 0)
     (Num 0, Num 6, Num 0))) = Num (- 12) \<and> \<not> \<bar>- 12 :: real\<bar> \<le> \<bar>6\<bar>"
  by (simp add: deform_def Let_def wave_def placed_def neutral_def shape_props.defs petal_props.defs)

section \<open>The layout\<close>

lemma petals_loop_step:
  "i < petalCount fp \<Longrightarrow>
   petals_loop fp i petalArray = petals_loop fp (i + 1) (petalArray @ [Petal_element fp i])"
  by (subst petals_loop.simps) simp

lemma petals_loop_done: "\<not> i < petalCount fp \<Longrightarrow> petals_loop fp i petalArray = petalArray"
  by (subst petals_loop.simps) simp

lemma petals_loop_map:
  "petals_loop fp i petalArray = petalArray @ map (Petal_element fp) [i..petalCount fp - 1]"
proof (induction fp i petalArray rule: petals_loop.induct)
  case (1 fp i petalArray)
  show ?case
  proof (cases "i < petalCount fp")
    case True
    then have "[i..petalCount fp - 1] = i # [i + 1..petalCount fp - 1]"
      by (simp add: upto_rec1)
    with 1 True show ?thesis by (simp add: petals_loop_step)
  next
    case False
    then show ?thesis by (simp add: petals_loop_done)
  qed
qed

lemma Flower_map: "Flower fp = map (Petal_element fp) [0..petalCount fp - 1]"
  by (simp add: Flower_def petals_loop_map)

lemma length_Flower: "length (Flower fp) = nat (petalCount fp)"
  by (simp add: Flower_map)

lemma Flower_nth: "i < nat (petalCount fp) \<Longrightarrow> Flower fp ! i = Petal_element fp (int i)"
  by (simp add: Flower_map)

lemma keys_Flower: "map key (Flower fp) = [0..petalCount fp - 1]"
  by (simp add: Flower_map Petal_element_def Let_def comp_def)

lemma Petal_element_placement:
  fixes fp :: flower_props and i :: int
  assumes "petalCount fp \<noteq> 0"
  defines "angle \<equiv> Num (of_int i / of_int (petalCount fp) * (2 * pi))"
  shows "position (props (Petal_element fp i)) =
           (Math_cos angle * petalSize fp * Num 0.5, Math_sin angle * petalSize fp * Num 0.5, Num 0)"
    and "rotation (props (Petal_element fp i)) = (Num 0, Num 0, angle)"
    and "scale (props (Petal_element fp i)) =
           (petalSize fp * Num 0.2, petalSize fp * Num 0.2, petalSize fp * Num 0.2)"
    and "key (Petal_element fp i) = i"
  using assms(1) unfolding angle_def
  by (simp_all add: Petal_element_def Let_def Math_PI_def mult_ac)

text \<open>
  Claim C4. For a petal count \<open>N\<close> of at least 1 and any petal size the layout has
  exactly \<open>N\<close> placements, and the placement of index \<open>i\<close> below \<open>N\<close> has the angle
  \<open>i / N * 2 pi\<close>, the position (cos angle * size * 0.5, sin angle * size * 0.5, 0), the
  rotation about z by the angle and the scale size * 0.2; the first angle is 0 and two
  neighbouring angles differ by \<open>2 pi / N\<close>.
\<close>

theorem layout_placements:
  assumes "1 \<le> petalCount fp" and "i < nat (petalCount fp)"
  shows "length (Flower fp) = nat (petalCount fp) \<and>
         (let angle = Num (real i / real_of_int (petalCount fp) * (2 * pi));
              e = props (Flower fp ! i)
          in position e = (Math_cos angle * petalSize fp * Num 0.5,
                           Math_sin angle * petalSize fp * Num 0.5, Num 0) \<and>
             rotation e = (Num 0, Num 0, angle) \<and>
             scale e = (petalSize fp * Num 0.2, petalSize fp * Num 0.2, petalSize fp * Num 0.2)) \<and>
         rotationZ (Flower fp ! 0) = Num 0 \<and>
         (i + 1 < nat (petalCount fp) \<longrightarrow>
            rotationZ (Flower fp ! (i + 1)) - rotationZ (Flower fp ! i)
              = Num (2 * pi / real_of_int (petalCount fp)))"
proof -
  from assms have N: "petalCount fp \<noteq> 0" and z: "0 < nat (petalCount fp)" by simp_all
  note pl = Petal_element_placement [OF N]
  have rz: "rotationZ (Flower fp ! j) = Num (real j / real_of_int (petalCount fp) * (2 * pi))"
    if "j < nat (petalCount fp)" for j
    using that by (simp add: Flower_nth rotationZ_def pl(2))
  have "real (i + 1) / real_of_int (petalCount fp) * (2 * pi)
          - real i / real_of_int (petalCount fp) * (2 * pi) = 2 * pi / real_of_int (petalCount fp)"
    using N by (simp add: field_simps)
  then have sp: "i + 1 < nat (petalCount fp) \<Longrightarrow>
      rotationZ (Flower fp ! (i + 1)) - rotationZ (Flower fp ! i)
              = Num (2 * pi / real_of_int (petalCount fp))"
    using assms(2) by (simp only: rz minus_Num)
  have z0: "rotationZ (Flower fp ! 0) = Num 0"
    using rz [OF z] by simp
  have el: "Flower fp ! i = Petal_element fp (int i)"
    using assms(2) by (rule Flower_nth)
  show ?thesis
    using sp z0 by (simp add: length_Flower el pl Let_def)
qed

theorem layout_placements_witness:
  "(1::int) \<le> petalCount App_initial \<and> (1::nat) < nat (petalCount App_initial) \<and>
   length (Flower App_initial) = 5 \<and>
   position (props (Flower App_initial ! 1)) =
     (Num (cos (1 / 5 * (2 * pi))) * Num 2 * Num 0.5, Num (sin (1 / 5 * (2 * pi))) * Num 2 * Num 0.5, Num 0) \<and>
   rotation (props (Flower App_initial ! 1)) = (Num 0, Num 0, Num (1 / 5 * (2 * pi))) \<and>
   scale (props (Flower App_initial ! 1)) = (Num 2 * Num 0.2, Num 2 * Num 0.2, Num 2 * Num 0.2) \<and>
   rotationZ (Flower App_initial ! 0) = Num 0 \<and>
   (1::nat) + 1 < nat (petalCount App_initial) \<and>
   rotationZ (Flower App_initial ! (1 + 1)) - rotationZ (Flower App_initial ! 1) = Num (2 * pi / 5)"
  using layout_placements [of App_initial 1]
  by (simp add: App_initial_def Let_def)

section \<open>The elapsed phase\<close>

lemma reconcile_kept:
  "insts k = Some s \<Longrightarrow> k \<in> set (map key elems) \<Longrightarrow> reconcile elems insts k = Some s"
  by (simp add: reconcile_def)

lemma reconcile_cases:
  "reconcile elems insts k = Some s' \<Longrightarrow> insts k = Some s' \<or> insts k = None \<and> s' = Petal_refs"
  by (auto simp: reconcile_def split: if_splits option.splits)

text \<open>
  Claim C6. Every frame adds exactly delta * noiseSpeed to the elapsed phase of a petal,
  so a positive delta and a noise speed that is not negative never lower a finite phase;
  a fresh instance starts at 0; rendering the list again either keeps an instance as it
  is or makes a fresh one for a key that had none; and after a change of the properties
  that keeps the petal count, the petal size among them, every petal of the list keeps
  its instance and so its phase.
\<close>

theorem elapsed_phase_accumulates:
  "time (useFrame noise3D p delta s) = time s + delta * noiseSpeed p \<and>
   (time s = Num t \<and> delta = Num d \<and> noiseSpeed p = Num v \<and> 0 < d \<and> 0 \<le> v \<longrightarrow>
      time (useFrame noise3D p delta s) = Num (t + d * v) \<and> t \<le> t + d * v) \<and>
   time Petal_refs = Num 0 \<and>
   (reconcile elems insts k = Some s' \<longrightarrow>
      insts k = Some s' \<or> insts k = None \<and> s' = Petal_refs) \<and>
   (petalCount fp' = petalCount fp \<and> k \<in> set (map key (Flower fp)) \<and> insts k = Some s \<longrightarrow>
      reconcile (Flower fp') insts k = Some s)"
proof (intro conjI impI)
  show "time (useFrame noise3D p delta s) = time s + delta * noiseSpeed p"
    by (rule useFrame_time)
next
  assume a: "time s = Num t \<and> delta = Num d \<and> noiseSpeed p = Num v \<and> 0 < d \<and> 0 \<le> v"
  then show "time (useFrame noise3D p delta s) = Num (t + d * v)"
    by (simp add: useFrame_time)
  from a show "t \<le> t + d * v" by simp
next
  show "time Petal_refs = Num 0" by (simp add: Petal_refs_def)
next
  assume "reconcile elems insts k = Some s'"
  then show "insts k = Some s' \<or> insts k = None \<and> s' = Petal_refs"
    by (rule reconcile_cases)
next
  assume "petalCount fp' = petalCount fp \<and> k \<in> set (map key (Flower fp)) \<and> insts k = Some s"
  then show "reconcile (Flower fp') insts k = Some s"
    by (simp add: reconcile_kept keys_Flower)
qed

theorem elapsed_phase_witness:
  "time pole = Num 0 \<and> noiseSpeed (placed neutral) = Num 0.5 \<and> (0::real) < 2 \<and> (0::real) \<le> 0.5 \<and>
   time (useFrame wave (placed neutral) (Num 2) pole) = Num 1 \<and>
   petalCount (App_initial\<lparr>petalSize := Num 3\<rparr>) = petalCount App_initial \<and>
   2 \<in> set (map key (Flower App_initial)) \<and>
   (Map.empty(2 \<mapsto> pole)) 2 = Some pole \<and>
   reconcile (Flower (App_initial\<lparr>petalSize := Num 3\<rparr>)) (Map.empty(2 \<mapsto> pole)) 2 = Some pole"
proof -
  have k: "2 \<in> set (map key (Flower App_initial))"
    by (simp add: keys_Flower App_initial_def)
  have t: "time pole = Num 0" and v: "noiseSpeed (placed neutral) = Num 0.5"
    by (simp_all add: pole_def placed_def neutral_def shape_props.defs petal_props.defs)
  have c: "petalCount (App_initial\<lparr>petalSize := Num 3\<rparr>) = petalCount App_initial"
    by simp
  from elapsed_phase_accumulates [where ?noise3D = wave and ?p = "placed neutral"
      and ?delta = "Num 2" and ?s = pole and ?t = 0 and ?d = 2 and ?v = "0.5"
      and ?elems = "Flower (App_initial\<lparr>petalSize := Num 3\<rparr>)"
      and ?insts = "Map.empty(2 \<mapsto> pole)" and ?k = 2 and ?s' = pole
      and ?fp' = "App_initial\<lparr>petalSize := Num 3\<rparr>" and ?fp = App_initial] k t v c
  show ?thesis by simp
qed

end
